theory Spec2Isabelle
  imports Main "HOL-Library.Sublist"
begin

section \<open>JavaScript values and the operations the server applies to them\<close>

text \<open>
  The values the server handles come out of \<open>JSON.parse\<close> (the tool-call request, the
  upstream reply) or out of a property read, which adds \<open>undefined\<close>.  A number is kept as
  its \<open>ToString\<close> rendering: the server observes a number only through \<open>ToString\<close>
  (template literals, \<open>+=\<close> on a string) and \<open>ToBoolean\<close> (\<open>!x\<close>, \<open>x &&\<close>, \<open>x ||\<close>).
  An object is the list of its own properties, each name once.
\<close>

datatype js =
    JUndefined
  | JNull
  | JBool bool
  | JNum string
  | JStr string
  | JArr "js list"
  | JObj "(string \<times> js) list"

text \<open>What a \<open>throw\<close> carries.  Both kinds are instances of \<open>Error\<close> and have a \<open>message\<close>.\<close>

datatype js_error = Error string | TypeError string

fun message :: "js_error \<Rightarrow> string" where
  "message (Error m) = m"
| "message (TypeError m) = m"

text \<open>\<open>ToBoolean\<close>: what \<open>if (x)\<close>, \<open>!x\<close>, \<open>x && y\<close> and \<open>x || y\<close> test.\<close>

fun truthy :: "js \<Rightarrow> bool" where
  "truthy JUndefined = False"
| "truthy JNull = False"
| "truthy (JBool b) = b"
| "truthy (JNum s) = (s \<noteq> ''0'' \<and> s \<noteq> ''NaN'')"
| "truthy (JStr s) = (s \<noteq> [])"
| "truthy (JArr xs) = True"
| "truthy (JObj kvs) = True"

text \<open>\<open>Array.isArray\<close>.\<close>

fun isArray :: "js \<Rightarrow> bool" where
  "isArray (JArr xs) = True"
| "isArray v = False"

text \<open>
  \<open>v.k\<close> for the property names the server reads by name (\<open>choices\<close>, \<open>message\<close>,
  \<open>content\<close>, \<open>citations\<close>, \<open>messages\<close>, \<open>port\<close>, \<open>stdio\<close>): none of them is inherited by a
  string, number, boolean, array or plain object, so only an object's own property can
  answer; \<open>undefined\<close> and \<open>null\<close> throw (the message is V8's).
\<close>

fun get_prop :: "js \<Rightarrow> string \<Rightarrow> js_error + js" where
  "get_prop JUndefined k =
     Inl (TypeError (''Cannot read properties of undefined (reading '' @ [CHR 0x27] @ k @ [CHR 0x27] @ '')''))"
| "get_prop JNull k =
     Inl (TypeError (''Cannot read properties of null (reading '' @ [CHR 0x27] @ k @ [CHR 0x27] @ '')''))"
| "get_prop (JObj kvs) k = Inr (case map_of kvs k of None \<Rightarrow> JUndefined | Some v \<Rightarrow> v)"
| "get_prop v k = Inr JUndefined"

text \<open>\<open>v[0]\<close>: the first element of an array, the first character of a string, an
  object's own property \<open>"0"\<close>; \<open>undefined\<close> where there is none.\<close>

fun get_index0 :: "js \<Rightarrow> js_error + js" where
  "get_index0 JUndefined =
     Inl (TypeError (''Cannot read properties of undefined (reading '' @ [CHR 0x27] @ ''0'' @ [CHR 0x27] @ '')''))"
| "get_index0 JNull =
     Inl (TypeError (''Cannot read properties of null (reading '' @ [CHR 0x27] @ ''0'' @ [CHR 0x27] @ '')''))"
| "get_index0 (JArr xs) = Inr (case xs of [] \<Rightarrow> JUndefined | x # rest \<Rightarrow> x)"
| "get_index0 (JStr s) = Inr (case s of [] \<Rightarrow> JUndefined | c # rest \<Rightarrow> JStr [c])"
| "get_index0 (JObj kvs) = Inr (case map_of kvs ''0'' of None \<Rightarrow> JUndefined | Some v \<Rightarrow> v)"
| "get_index0 v = Inr JUndefined"

text \<open>Decimal rendering of a non-negative integer (\<open>index + 1\<close>, \<open>response.status\<close>).\<close>

definition digit_char :: "nat \<Rightarrow> char" where
  "digit_char d = ''0123456789'' ! d"

fun show_nat :: "nat \<Rightarrow> string" where
  "show_nat n = (if n < 10 then [digit_char n] else show_nat (n div 10) @ [digit_char (n mod 10)])"

declare show_nat.simps [simp del]

text \<open>Reading a decimal rendering back: the check that \<open>show_nat\<close> loses nothing.\<close>

definition digit_value :: "char \<Rightarrow> nat" where
  "digit_value c = of_char c - 48"

definition read_nat :: "string \<Rightarrow> nat" where
  "read_nat s = foldl (\<lambda>a c. 10 * a + digit_value c) 0 s"

text \<open>\<open>Array.prototype.join\<close> with the default separator.\<close>

fun join_comma :: "string list \<Rightarrow> string" where
  "join_comma [] = []"
| "join_comma [s] = s"
| "join_comma (s # t) = s @ '','' @ join_comma t"

text \<open>Evaluating a list of fallible steps in order: the first throw wins.\<close>

fun collect :: "('e + 'a) list \<Rightarrow> 'e + 'a list" where
  "collect [] = Inr []"
| "collect (r # rs) =
     (case r of Inl e \<Rightarrow> Inl e
      | Inr x \<Rightarrow> (case collect rs of Inl e \<Rightarrow> Inl e | Inr xs \<Rightarrow> Inr (x # xs)))"

text \<open>
  \<open>ToString\<close>, as a template literal \<open>`${v}`\<close> and \<open>v += "..."\<close> apply it.  An array joins
  its elements (\<open>undefined\<close> and \<open>null\<close> as the empty string).  A parsed object renders as
  \<open>[object Object]\<close>, unless it has an own property \<open>toString\<close>: that value is not
  callable, \<open>valueOf\<close> gives no primitive, and the conversion throws.
\<close>

fun to_string :: "js \<Rightarrow> js_error + string" where
  "to_string JUndefined = Inr ''undefined''"
| "to_string JNull = Inr ''null''"
| "to_string (JBool b) = Inr (if b then ''true'' else ''false'')"
| "to_string (JNum s) = Inr s"
| "to_string (JStr s) = Inr s"
| "to_string (JArr xs) =
     (case collect (map (\<lambda>x. case x of JUndefined \<Rightarrow> Inr [] | JNull \<Rightarrow> Inr [] | _ \<Rightarrow> to_string x) xs) of
        Inl e \<Rightarrow> Inl e
      | Inr ss \<Rightarrow> Inr (join_comma ss))"
| "to_string (JObj kvs) =
     (if ''toString'' \<in> fst ` set kvs then Inl (TypeError ''Cannot convert object to primitive value'')
      else Inr ''[object Object]'')"


section \<open>Upstream client\<close>

text \<open>
  What \<open>performChatCompletion\<close> sees of the network.  \<open>fetch\<close> either throws (the
  payload is the thrown value as \<open>`${error}`\<close> renders it) or yields a response;
  \<open>response.text()\<close> yields the body or throws; \<open>response.json()\<close> yields the parsed
  body or throws (again with the rendering of the thrown value).
\<close>

record http_response =
  ok :: bool
  status :: nat
  statusText :: string
  text_body :: "string option"
  json_body :: "string + js"

datatype fetch_result = FetchThrows string | FetchResponse http_response

text \<open>The body of the POST to \<open>https://api.perplexity.ai/chat/completions\<close>; the URL,
  the method and the headers are the same in every call.\<close>

record post_body =
  model :: string
  messages :: js

type_synonym upstream = "post_body \<Rightarrow> fetch_result"

text \<open>The \<open>forEach\<close> over the citations: \<open>messageContent += `[${index + 1}] ${citation}\n`\<close>.\<close>

fun append_citations :: "string \<Rightarrow> nat \<Rightarrow> js list \<Rightarrow> js_error + string" where
  "append_citations messageContent index [] = Inr messageContent"
| "append_citations messageContent index (citation # rest) =
     (case to_string citation of
        Inl e \<Rightarrow> Inl e
      | Inr c \<Rightarrow>
          append_citations (messageContent @ ''['' @ show_nat (index + 1) @ ''] '' @ c @ ''\<newline>'')
            (index + 1) rest)"

text \<open>\<open>data.choices[0].message.content\<close>: four reads, each of which may throw.\<close>

definition first_choice_content :: "js \<Rightarrow> js_error + js" where
  "first_choice_content data =
     (case get_prop data ''choices'' of
        Inl e \<Rightarrow> Inl e
      | Inr choices \<Rightarrow>
     (case get_index0 choices of
        Inl e \<Rightarrow> Inl e
      | Inr choice \<Rightarrow>
     (case get_prop choice ''message'' of
        Inl e \<Rightarrow> Inl e
      | Inr msg \<Rightarrow> get_prop msg ''content'')))"

text \<open>The part of \<open>performChatCompletion\<close> after \<open>data\<close> has been parsed.\<close>

definition format_completion :: "js \<Rightarrow> js_error + js" where
  "format_completion data =
     (case first_choice_content data of
        Inl e \<Rightarrow> Inl e
      | Inr messageContent \<Rightarrow>
     (case get_prop data ''citations'' of
        Inl e \<Rightarrow> Inl e
      | Inr citations \<Rightarrow>
          if truthy citations \<and> isArray citations \<and> (case citations of JArr cs \<Rightarrow> length cs > 0 | _ \<Rightarrow> False)
          then (case to_string messageContent of
                  Inl e \<Rightarrow> Inl e
                | Inr s \<Rightarrow>
                    (case append_citations (s @ ''\<newline>\<newline>Citations:\<newline>'') 0
                            (case citations of JArr cs \<Rightarrow> cs | _ \<Rightarrow> []) of
                       Inl e \<Rightarrow> Inl e
                     | Inr s' \<Rightarrow> Inr (JStr s')))
          else Inr messageContent))"

text \<open>
  \<open>performChatCompletion(messages, model)\<close>.  The second component of the result is the
  list of POST bodies sent so far: the function sends exactly one.
\<close>

definition performChatCompletion ::
  "upstream \<Rightarrow> js \<Rightarrow> string \<Rightarrow> post_body list \<Rightarrow> (js_error + js) \<times> post_body list" where
  "performChatCompletion fetch msgs mdl sent =
     (let body = \<lparr>model = mdl, messages = msgs\<rparr>;
          sent' = sent @ [body]
      in case fetch body of
           FetchThrows error \<Rightarrow>
             (Inl (Error (''Network error while calling Perplexity API: '' @ error)), sent')
         | FetchResponse response \<Rightarrow>
             if \<not> ok response then
               (let errorText = (case text_body response of
                                   Some t \<Rightarrow> t
                                 | None \<Rightarrow> ''Unable to parse error response'')
                in (Inl (Error (''Perplexity API error: '' @ show_nat (status response) @ '' ''
                                 @ statusText response @ ''\<newline>'' @ errorText)), sent'))
             else
               (case json_body response of
                  Inl jsonError \<Rightarrow>
                    (Inl (Error (''Failed to parse JSON response from Perplexity API: '' @ jsonError)), sent')
                | Inr data \<Rightarrow> (format_completion data, sent')))"

section \<open>Request dispatcher\<close>

record content_item =
  item_type :: string
  item_text :: js

record tool_response =
  content :: "content_item list"
  isError :: bool

text \<open>\<open>request.params\<close> of a tool call; \<open>arguments\<close> is \<open>JUndefined\<close> when the request
  has none.\<close>

record call_params =
  name :: string
  arguments :: js

text \<open>One \<open>case\<close> block of the \<open>switch\<close>: the three differ in the message of the
  validation error and in the model only.\<close>

definition tool_case ::
  "upstream \<Rightarrow> js \<Rightarrow> string \<Rightarrow> string \<Rightarrow> post_body list
     \<Rightarrow> (js_error + tool_response) \<times> post_body list" where
  "tool_case fetch args invalid mdl sent =
     (case get_prop args ''messages'' of
        Inl e \<Rightarrow> (Inl e, sent)
      | Inr msgs \<Rightarrow>
          if \<not> isArray msgs then (Inl (Error invalid), sent)
          else (case performChatCompletion fetch msgs mdl sent of
                  (Inl e, sent') \<Rightarrow> (Inl e, sent')
                | (Inr result, sent') \<Rightarrow>
                    (Inr \<lparr>content = [\<lparr>item_type = ''text'', item_text = result\<rparr>], isError = False\<rparr>,
                     sent')))"

text \<open>The body of the \<open>try\<close> block of the \<open>CallToolRequestSchema\<close> handler.\<close>

definition handler_try ::
  "upstream \<Rightarrow> call_params \<Rightarrow> post_body list \<Rightarrow> (js_error + tool_response) \<times> post_body list" where
  "handler_try fetch params sent =
     (let args = arguments params in
      if \<not> truthy args then (Inl (Error ''No arguments provided''), sent)
      else if name params = ''perplexity_ask'' then
        tool_case fetch args
          ''Invalid arguments for perplexity_ask: 'messages' must be an array''
          ''sonar-pro'' sent
      else if name params = ''perplexity_research'' then
        tool_case fetch args
          ''Invalid arguments for perplexity_research: 'messages' must be an array''
          ''sonar-deep-research'' sent
      else if name params = ''perplexity_reason'' then
        tool_case fetch args
          ''Invalid arguments for perplexity_reason: 'messages' must be an array''
          ''sonar-reasoning-pro'' sent
      else
        (Inr \<lparr>content = [\<lparr>item_type = ''text'', item_text = JStr (''Unknown tool: '' @ name params)\<rparr>],
              isError = True\<rparr>, sent))"

text \<open>The \<open>catch\<close> block: every thrown value here is an \<open>Error\<close> instance, so the text
  is \<open>`Error: ${error.message}`\<close>.\<close>

definition handler_catch :: "js_error \<Rightarrow> tool_response" where
  "handler_catch error =
     \<lparr>content = [\<lparr>item_type = ''text'', item_text = JStr (''Error: '' @ message error)\<rparr>],
      isError = True\<rparr>"

text \<open>The handler: \<open>try { ... } catch (error) { ... }\<close>.\<close>

definition handler ::
  "upstream \<Rightarrow> call_params \<Rightarrow> post_body list \<Rightarrow> tool_response \<times> post_body list" where
  "handler fetch params sent =
     (case handler_try fetch params sent of
        (Inl error, sent') \<Rightarrow> (handler_catch error, sent')
      | (Inr response, sent') \<Rightarrow> (response, sent'))"


section \<open>Streamable-HTTP sessions\<close>

text \<open>
  Of a request to \<open>/mcp\<close> the handler reads the method and
  \<open>req.headers['mcp-session-id']\<close> (a string, or \<open>undefined\<close> when the header is absent).
  Server instances and transports are objects of the protocol library; the model keeps
  their identity only.
\<close>

record http_request =
  req_method :: string
  mcp_session_id :: "string option"

type_synonym handle = nat

record session =
  transport :: handle
  server :: handle

text \<open>
  The module state: the \<open>streamableSessions\<close> map, and the transports created so far,
  each with the server instance its callbacks close over (\<open>created\<close> counts the objects
  made, for fresh identities).
\<close>

record mcp_state =
  streamableSessions :: "string \<rightharpoonup> session"
  callbacks :: "(handle \<times> handle) list"
  created :: nat

definition initial_state :: mcp_state where
  "initial_state = \<lparr>streamableSessions = Map.empty, callbacks = [], created = 0\<rparr>"

text \<open>
  What \<open>handleStreamable\<close> does with the request: answer it itself (status and body),
  hand it to the transport of a stored session, or connect a new server instance to a new
  transport and hand the request to that transport.
\<close>

datatype streamable_outcome =
    Responded nat string
  | Delegated session
  | Connected handle handle

definition handleStreamable :: "mcp_state \<Rightarrow> http_request \<Rightarrow> streamable_outcome \<times> mcp_state" where
  "handleStreamable st req =
     (let sessionId = mcp_session_id req in
      if (case sessionId of None \<Rightarrow> False | Some sid \<Rightarrow> sid \<noteq> []) then
        (case sessionId of
           None \<Rightarrow> (Responded 404 ''Session not found'', st)
         | Some sid \<Rightarrow>
             (case streamableSessions st sid of
                None \<Rightarrow> (Responded 404 ''Session not found'', st)
              | Some session \<Rightarrow> (Delegated session, st)))
      else if req_method req = ''POST'' then
        (let serverInstance = created st;
             t = created st + 1
         in (Connected serverInstance t,
             st\<lparr>callbacks := (t, serverInstance) # callbacks st, created := created st + 2\<rparr>))
      else (Responded 400 ''Invalid request'', st))"

text \<open>The \<open>onsessioninitialized\<close> callback of a transport created by \<open>handleStreamable\<close>.\<close>

definition onsessioninitialized :: "handle \<Rightarrow> handle \<Rightarrow> string \<Rightarrow> mcp_state \<Rightarrow> mcp_state" where
  "onsessioninitialized t serverInstance sessionId st =
     st\<lparr>streamableSessions :=
          (streamableSessions st)(sessionId \<mapsto> \<lparr>transport = t, server = serverInstance\<rparr>)\<rparr>"

text \<open>The \<open>onclose\<close> callback; its argument is what \<open>transport.sessionId\<close> reads when it
  runs.\<close>

definition onclose :: "string option \<Rightarrow> mcp_state \<Rightarrow> mcp_state" where
  "onclose transport_sessionId st =
     (case transport_sessionId of
        None \<Rightarrow> st
      | Some sid \<Rightarrow>
          if sid \<noteq> [] then st\<lparr>streamableSessions := (streamableSessions st)(sid := None)\<rparr> else st)"

text \<open>
  What can happen to the module state: a request arrives at \<open>/mcp\<close>, or the library
  fires one of the two callbacks of a transport.  A callback exists only for a transport
  that \<open>handleStreamable\<close> has created.
\<close>

datatype event =
    Request http_request
  | SessionInitialized handle string
  | Closed handle "string option"

fun step :: "mcp_state \<Rightarrow> event \<Rightarrow> mcp_state" where
  "step st (Request req) = snd (handleStreamable st req)"
| "step st (SessionInitialized t sid) =
     (case map_of (callbacks st) t of
        None \<Rightarrow> st
      | Some serverInstance \<Rightarrow> onsessioninitialized t serverInstance sid st)"
| "step st (Closed t transport_sessionId) =
     (case map_of (callbacks st) t of
        None \<Rightarrow> st
      | Some serverInstance \<Rightarrow> onclose transport_sessionId st)"

fun run :: "mcp_state \<Rightarrow> event list \<Rightarrow> mcp_state" where
  "run st [] = st"
| "run st (ev # evs) = run (step st ev) evs"

section \<open>Process entry point\<close>

text \<open>
  The source holds two variants of the entry point.  \<open>options\<close> is an object with the
  optional properties \<open>port\<close> and \<open>stdio\<close>; \<open>parseInt(s, 10)\<close> is a parameter, and its
  result is a number.
\<close>

record options =
  port :: "js option"
  stdio :: "bool option"

text \<open>The loop of the first variant's \<open>parseArgs\<close>, over \<open>process.argv.slice(2)\<close>.\<close>

fun parseArgs_js_loop :: "(string \<Rightarrow> js) \<Rightarrow> string list \<Rightarrow> options \<Rightarrow> options" where
  "parseArgs_js_loop parseInt [] opts = opts"
| "parseArgs_js_loop parseInt [a] opts = opts"
| "parseArgs_js_loop parseInt (a # b # rest) opts =
     (if a = ''--port'' then parseArgs_js_loop parseInt rest (opts\<lparr>port := Some (parseInt b)\<rparr>)
      else parseArgs_js_loop parseInt (b # rest) opts)"

definition parseArgs_js :: "(string \<Rightarrow> js) \<Rightarrow> string list \<Rightarrow> options" where
  "parseArgs_js parseInt args = parseArgs_js_loop parseInt args \<lparr>port = None, stdio = None\<rparr>"

text \<open>The loop of the second variant's \<open>parseArgs\<close>.\<close>

fun parseArgs_ts_loop :: "(string \<Rightarrow> js) \<Rightarrow> string list \<Rightarrow> options \<Rightarrow> options" where
  "parseArgs_ts_loop parseInt [] opts = opts"
| "parseArgs_ts_loop parseInt [a] opts =
     (if a = ''--stdio'' then opts\<lparr>stdio := Some True\<rparr> else opts)"
| "parseArgs_ts_loop parseInt (a # b # rest) opts =
     (if a = ''--port'' then parseArgs_ts_loop parseInt rest (opts\<lparr>port := Some (parseInt b)\<rparr>)
      else if a = ''--stdio'' then parseArgs_ts_loop parseInt (b # rest) (opts\<lparr>stdio := Some True\<rparr>)
      else parseArgs_ts_loop parseInt (b # rest) opts)"

definition parseArgs_ts :: "(string \<Rightarrow> js) \<Rightarrow> string list \<Rightarrow> options" where
  "parseArgs_ts parseInt args = parseArgs_ts_loop parseInt args \<lparr>port = None, stdio = None\<rparr>"

text \<open>What \<open>runServer\<close> starts: the stdio transport, or \<open>startHttpServer(port)\<close>.\<close>

datatype transport_mode = StdioMode | HttpMode js

definition runServer_js :: "(string \<Rightarrow> js) \<Rightarrow> string list \<Rightarrow> transport_mode" where
  "runServer_js parseInt args =
     (let opts = parseArgs_js parseInt args in
      case port opts of
        Some p \<Rightarrow> if truthy p then HttpMode p else StdioMode
      | None \<Rightarrow> StdioMode)"

definition runServer_ts :: "(string \<Rightarrow> js) \<Rightarrow> string list \<Rightarrow> transport_mode" where
  "runServer_ts parseInt args =
     (let opts = parseArgs_ts parseInt args in
      if stdio opts = Some True then StdioMode
      else HttpMode (case port opts of
                       Some p \<Rightarrow> if truthy p then p else JNum ''8080''
                     | None \<Rightarrow> JNum ''8080''))"


section \<open>The citation format, as the specification words it\<close>

text \<open>One line \<open>"[i] <citation>\n"\<close> per citation, numbered from 1 in list order, after
  the separator \<open>"\n\nCitations:\n"\<close>.\<close>

definition citation_line :: "nat \<Rightarrow> string \<Rightarrow> string" where
  "citation_line i c = ''['' @ show_nat i @ ''] '' @ c @ ''\<newline>''"

definition spec_with_citations :: "string \<Rightarrow> string list \<Rightarrow> string" where
  "spec_with_citations c cs =
     c @ ''\<newline>\<newline>Citations:\<newline>'' @ concat (map2 citation_line [1..<Suc (length cs)] cs)"

section \<open>Concrete upstream behaviours\<close>

text \<open>An upstream that cannot be reached, one that answers every call with the given
  parsed body, one that answers with a non-success status (its body readable or not), and
  one whose body is not JSON.\<close>

definition fetch_fails :: upstream where
  "fetch_fails body = FetchThrows ''TypeError: fetch failed''"

definition reply :: "js \<Rightarrow> upstream" where
  "reply data body =
     FetchResponse \<lparr>ok = True, status = 200, statusText = ''OK'', text_body = None, json_body = Inr data\<rparr>"

definition unauthorized :: "string option \<Rightarrow> upstream" where
  "unauthorized t body =
     FetchResponse \<lparr>ok = False, status = 401, statusText = ''Unauthorized'', text_body = t,
                    json_body = Inl ''SyntaxError: Unexpected end of JSON input''\<rparr>"

definition not_json :: upstream where
  "not_json body =
     FetchResponse \<lparr>ok = True, status = 200, statusText = ''OK'', text_body = Some ''<html>'',
                    json_body = Inl ''SyntaxError: Unexpected token < in JSON at position 0''\<rparr>"

text \<open>Two parsed bodies: one with an empty \<open>choices\<close> list, one whose first choice has
  a message without \<open>content\<close>.\<close>

definition empty_choices :: js where
  "empty_choices = JObj [(''choices'', JArr [])]"

definition message_without_content :: js where
  "message_without_content = JObj [(''choices'', JArr [JObj [(''message'', JObj [])]])]"

text \<open>A first POST without session header, followed by the completed handshake of the
  transport it created.\<close>

definition handshake :: "event list" where
  "handshake = [Request \<lparr>req_method = ''POST'', mcp_session_id = None\<rparr>, SessionInitialized 1 ''s1'']"

section \<open>Properties of the upstream client\<close>

lemma digit_value_digit_char: "d < 10 \<Longrightarrow> digit_value (digit_char d) = d"
proof -
  assume "d < 10"
  then have "d \<in> {0, 1, 2, 3, 4, 5, 6, 7, 8, 9}" by auto
  then show ?thesis
    by (auto simp: digit_value_def digit_char_def)
qed

lemma read_nat_show_nat: "read_nat (show_nat n) = n"
proof (induction n rule: show_nat.induct)
  case (1 n)
  show ?case
  proof (cases "n < 10")
    case True
    then show ?thesis
      by (subst show_nat.simps) (simp add: read_nat_def digit_value_digit_char)
  next
    case False
    with 1 have "read_nat (show_nat (n div 10)) = n div 10" by simp
    with False show ?thesis
      by (subst show_nat.simps) (simp add: read_nat_def digit_value_digit_char)
  qed
qed

lemma append_citations_lines:
  "collect (map to_string cs) = Inr ss \<Longrightarrow>
   append_citations acc i cs = Inr (acc @ concat (map2 citation_line [Suc i..<Suc i + length ss] ss))"
proof (induction cs arbitrary: acc i ss)
  case Nil
  then show ?case by simp
next
  case (Cons c cs)
  from Cons.prems obtain x xs
    where x: "to_string c = Inr x" "collect (map to_string cs) = Inr xs" "ss = x # xs"
    by (auto split: sum.splits)
  have up: "[Suc i..<Suc i + length ss] = Suc i # [Suc (Suc i)..<Suc (Suc i) + length xs]"
    using x(3) by (simp add: upt_rec)
  show ?case
    using Cons.IH [OF x(2), of "acc @ ''['' @ show_nat (i + 1) @ ''] '' @ x @ ''\<newline>''" "Suc i"] x
    unfolding up by (simp add: citation_line_def)
qed

lemma collect_strings: "collect (map to_string (map JStr ss)) = Inr ss"
  by (induction ss) simp_all

lemma format_completion_citations:
  assumes "first_choice_content data = Inr c"
      and "get_prop data ''citations'' = Inr (JArr cs)" and "cs \<noteq> []"
      and "to_string c = Inr s" and "collect (map to_string cs) = Inr ss"
  shows "format_completion data = Inr (JStr (spec_with_citations s ss))"
  using assms(1-4) append_citations_lines [OF assms(5), of "s @ ''\<newline>\<newline>Citations:\<newline>''" 0]
  by (simp add: format_completion_def spec_with_citations_def)

lemma format_completion_plain:
  assumes "first_choice_content data = Inr c"
      and "get_prop data ''citations'' = Inr cit" and "\<not> isArray cit \<or> cit = JArr []"
  shows "format_completion data = Inr c"
  using assms by (cases cit) (auto simp: format_completion_def)

lemma spec_example:
  "spec_with_citations ''C'' [''a'', ''b''] = ''C\<newline>\<newline>Citations:\<newline>[1] a\<newline>[2] b\<newline>''"
  by (simp add: spec_with_citations_def citation_line_def upt_rec show_nat.simps digit_char_def)

text \<open>
  C2.  When the upstream call succeeds and \<open>choices[0].message.content\<close> can be read,
  \<open>performChatCompletion\<close> returns that content unmodified if \<open>citations\<close> is absent
  (it reads as \<open>undefined\<close>) or an empty list.  If \<open>citations\<close> is a non-empty list, it
  returns the content, the separator \<open>"\n\nCitations:\n"\<close> and one line \<open>"[i] ci\n"\<close> per
  citation, numbered from 1 in list order: for a string content and string citations
  literally, and for other values through their \<open>ToString\<close> rendering.  The witness is
  the specification's example: content \<open>"C"\<close> with citations \<open>["a","b"]\<close>.
\<close>

theorem citations_appended:
  assumes "fetch \<lparr>model = mdl, messages = msgs\<rparr> = FetchResponse r" and "ok r"
      and "json_body r = Inr data" and "first_choice_content data = Inr c"
  shows "(\<forall>cit. get_prop data ''citations'' = Inr cit \<and> (cit = JUndefined \<or> cit = JArr []) \<longrightarrow>
            fst (performChatCompletion fetch msgs mdl sent) = Inr c)
       \<and> (\<forall>cs s ss. get_prop data ''citations'' = Inr (JArr cs) \<and> cs \<noteq> [] \<and>
            to_string c = Inr s \<and> collect (map to_string cs) = Inr ss \<longrightarrow>
            fst (performChatCompletion fetch msgs mdl sent) = Inr (JStr (spec_with_citations s ss)))
       \<and> (\<forall>s ss. c = JStr s \<and> get_prop data ''citations'' = Inr (JArr (map JStr ss)) \<and> ss \<noteq> [] \<longrightarrow>
            fst (performChatCompletion fetch msgs mdl sent) = Inr (JStr (spec_with_citations s ss)))"
proof -
  have p: "performChatCompletion fetch msgs mdl sent =
            (format_completion data, sent @ [\<lparr>model = mdl, messages = msgs\<rparr>])"
    using assms(1-3) by (simp add: performChatCompletion_def)
  have plain: "fst (performChatCompletion fetch msgs mdl sent) = Inr c"
    if "get_prop data ''citations'' = Inr cit \<and> (cit = JUndefined \<or> cit = JArr [])" for cit
    using that format_completion_plain [OF assms(4), of cit] p by auto
  have general: "fst (performChatCompletion fetch msgs mdl sent) = Inr (JStr (spec_with_citations s ss))"
    if "get_prop data ''citations'' = Inr (JArr cs) \<and> cs \<noteq> [] \<and>
            to_string c = Inr s \<and> collect (map to_string cs) = Inr ss" for cs s ss
    using that format_completion_citations [OF assms(4)] p by simp
  have strings: "fst (performChatCompletion fetch msgs mdl sent) = Inr (JStr (spec_with_citations s ss))"
    if "c = JStr s \<and> get_prop data ''citations'' = Inr (JArr (map JStr ss)) \<and> ss \<noteq> []" for s ss
    using that general [of "map JStr ss" s ss] collect_strings [of ss] by simp
  show ?thesis
    using plain general strings by blast
qed

theorem citations_appended_witness:
  "fst (performChatCompletion
          (reply (JObj [(''choices'', JArr [JObj [(''message'', JObj [(''content'', JStr ''C'')])]]),
                        (''citations'', JArr [JStr ''a'', JStr ''b''])]))
          (JArr []) ''sonar-pro'' [])
     = Inr (JStr ''C\<newline>\<newline>Citations:\<newline>[1] a\<newline>[2] b\<newline>'')
   \<and> fst (performChatCompletion
          (reply (JObj [(''choices'', JArr [JObj [(''message'', JObj [(''content'', JStr ''C'')])]])]))
          (JArr []) ''sonar-pro'' [])
     = Inr (JStr ''C'')"
proof -
  let ?r = "\<lambda>data. \<lparr>ok = True, status = 200, statusText = ''OK'', text_body = None, json_body = Inr data\<rparr>"
  let ?d1 = "JObj [(''choices'', JArr [JObj [(''message'', JObj [(''content'', JStr ''C'')])]]),
                        (''citations'', JArr [JStr ''a'', JStr ''b''])]"
  let ?d2 = "JObj [(''choices'', JArr [JObj [(''message'', JObj [(''content'', JStr ''C'')])]])]"
  have f1: "reply ?d1 \<lparr>model = ''sonar-pro'', messages = JArr []\<rparr> = FetchResponse (?r ?d1)"
    by (simp add: reply_def)
  have f2: "reply ?d2 \<lparr>model = ''sonar-pro'', messages = JArr []\<rparr> = FetchResponse (?r ?d2)"
    by (simp add: reply_def)
  have c1: "first_choice_content ?d1 = Inr (JStr ''C'')"
    by (simp add: first_choice_content_def)
  have c2: "first_choice_content ?d2 = Inr (JStr ''C'')"
    by (simp add: first_choice_content_def)
  have k: "ok (?r d)" "json_body (?r d) = Inr d" for d
    by simp_all
  from citations_appended [where fetch = "reply ?d1" and sent = "[]", OF f1 k(1) k(2) c1]
  have "fst (performChatCompletion (reply ?d1) (JArr []) ''sonar-pro'' [])
          = Inr (JStr (spec_with_citations ''C'' [''a'', ''b'']))"
    by simp
  moreover
  from citations_appended [where fetch = "reply ?d2" and sent = "[]", OF f2 k(1) k(2) c2]
  have "fst (performChatCompletion (reply ?d2) (JArr []) ''sonar-pro'' []) = Inr (JStr ''C'')"
    by simp
  ultimately show ?thesis
    by (simp add: spec_example)
qed

lemma show_nat_401: "show_nat 401 = ''401''"
  by (simp add: show_nat.simps digit_char_def)

text \<open>
  C6.  \<open>performChatCompletion\<close> fails in three ways, each with its own message and each
  by throwing (the result is an error, never a value): when \<open>fetch\<close> throws, a network
  error; when the response status is not a success, an error with the status code, the
  status text and the body text, the body replaced by the note
  \<open>Unable to parse error response\<close> when it cannot be read; when the body is not valid
  JSON, a parse error.  The three messages differ whatever their variable parts are.
\<close>

theorem upstream_failure_classification:
  "(fetch \<lparr>model = mdl, messages = msgs\<rparr> = FetchThrows err \<longrightarrow>
      performChatCompletion fetch msgs mdl sent =
        (Inl (Error (''Network error while calling Perplexity API: '' @ err)),
         sent @ [\<lparr>model = mdl, messages = msgs\<rparr>]))
   \<and> (fetch \<lparr>model = mdl, messages = msgs\<rparr> = FetchResponse r \<and> \<not> ok r \<and> text_body r = Some t \<longrightarrow>
      performChatCompletion fetch msgs mdl sent =
        (Inl (Error (''Perplexity API error: '' @ show_nat (status r) @ '' '' @ statusText r
                     @ ''\<newline>'' @ t)),
         sent @ [\<lparr>model = mdl, messages = msgs\<rparr>]))
   \<and> (fetch \<lparr>model = mdl, messages = msgs\<rparr> = FetchResponse r \<and> \<not> ok r \<and> text_body r = None \<longrightarrow>
      performChatCompletion fetch msgs mdl sent =
        (Inl (Error (''Perplexity API error: '' @ show_nat (status r) @ '' '' @ statusText r
                     @ ''\<newline>'' @ ''Unable to parse error response'')),
         sent @ [\<lparr>model = mdl, messages = msgs\<rparr>]))
   \<and> (fetch \<lparr>model = mdl, messages = msgs\<rparr> = FetchResponse r \<and> ok r \<and> json_body r = Inl jsonError \<longrightarrow>
      performChatCompletion fetch msgs mdl sent =
        (Inl (Error (''Failed to parse JSON response from Perplexity API: '' @ jsonError)),
         sent @ [\<lparr>model = mdl, messages = msgs\<rparr>]))
   \<and> ''Network error while calling Perplexity API: '' @ a \<noteq> ''Perplexity API error: '' @ b
   \<and> ''Network error while calling Perplexity API: '' @ a \<noteq> ''Failed to parse JSON response from Perplexity API: '' @ c
   \<and> ''Perplexity API error: '' @ b \<noteq> ''Failed to parse JSON response from Perplexity API: '' @ c"
  by (simp add: performChatCompletion_def)

theorem upstream_failure_classification_witness:
  "performChatCompletion fetch_fails (JArr []) ''sonar-pro'' [] =
     (Inl (Error ''Network error while calling Perplexity API: TypeError: fetch failed''),
      [\<lparr>model = ''sonar-pro'', messages = JArr []\<rparr>])
   \<and> performChatCompletion (unauthorized (Some ''bad key'')) (JArr []) ''sonar-pro'' [] =
     (Inl (Error ''Perplexity API error: 401 Unauthorized\<newline>bad key''),
      [\<lparr>model = ''sonar-pro'', messages = JArr []\<rparr>])
   \<and> performChatCompletion (unauthorized None) (JArr []) ''sonar-pro'' [] =
     (Inl (Error ''Perplexity API error: 401 Unauthorized\<newline>Unable to parse error response''),
      [\<lparr>model = ''sonar-pro'', messages = JArr []\<rparr>])
   \<and> performChatCompletion not_json (JArr []) ''sonar-pro'' [] =
     (Inl (Error ''Failed to parse JSON response from Perplexity API: SyntaxError: Unexpected token < in JSON at position 0''),
      [\<lparr>model = ''sonar-pro'', messages = JArr []\<rparr>])"
  using upstream_failure_classification
          [of fetch_fails "''sonar-pro''" "JArr []" "''TypeError: fetch failed''" "[]"]
        upstream_failure_classification
          [of "unauthorized (Some ''bad key'')" "''sonar-pro''" "JArr []" _ "[]"
              "\<lparr>ok = False, status = 401, statusText = ''Unauthorized'', text_body = Some ''bad key'',
                    json_body = Inl ''SyntaxError: Unexpected end of JSON input''\<rparr>" "''bad key''"]
        upstream_failure_classification
          [of "unauthorized None" "''sonar-pro''" "JArr []" _ "[]"
              "\<lparr>ok = False, status = 401, statusText = ''Unauthorized'', text_body = None,
                    json_body = Inl ''SyntaxError: Unexpected end of JSON input''\<rparr>"]
        upstream_failure_classification
          [of not_json "''sonar-pro''" "JArr []" _ "[]"
              "\<lparr>ok = True, status = 200, statusText = ''OK'', text_body = Some ''<html>'',
                    json_body = Inl ''SyntaxError: Unexpected token < in JSON at position 0''\<rparr>" _
              "''SyntaxError: Unexpected token < in JSON at position 0''"]
  by (simp add: fetch_fails_def unauthorized_def not_json_def show_nat_401)

section \<open>Properties of the request dispatcher\<close>

lemma perform_success_iff:
  "fst (performChatCompletion fetch msgs mdl sent) = Inr t \<longleftrightarrow>
     (\<exists>resp data. fetch \<lparr>model = mdl, messages = msgs\<rparr> = FetchResponse resp \<and> ok resp
        \<and> json_body resp = Inr data \<and> format_completion data = Inr t)"
  by (auto simp: performChatCompletion_def Let_def split: fetch_result.splits sum.splits)

lemma tool_case_success_iff:
  "fst (tool_case fetch args invalid mdl sent) = Inr r \<longleftrightarrow>
     (\<exists>msgs t. get_prop args ''messages'' = Inr msgs \<and> isArray msgs
        \<and> fst (performChatCompletion fetch msgs mdl sent) = Inr t
        \<and> r = \<lparr>content = [\<lparr>item_type = ''text'', item_text = t\<rparr>], isError = False\<rparr>)"
  by (auto simp: tool_case_def split: sum.splits prod.splits)

lemma handler_tool:
  "fst (handler fetch params sent) =
     (case fst (handler_try fetch params sent) of Inl e \<Rightarrow> handler_catch e | Inr r \<Rightarrow> r)"
  by (auto simp: handler_def split: prod.splits sum.splits)

lemma handler_try_fst:
  "fst (handler_try fetch params sent) =
     (if \<not> truthy (arguments params) then Inl (Error ''No arguments provided'')
      else if name params = ''perplexity_ask'' then
        fst (tool_case fetch (arguments params)
          ''Invalid arguments for perplexity_ask: 'messages' must be an array'' ''sonar-pro'' sent)
      else if name params = ''perplexity_research'' then
        fst (tool_case fetch (arguments params)
          ''Invalid arguments for perplexity_research: 'messages' must be an array''
          ''sonar-deep-research'' sent)
      else if name params = ''perplexity_reason'' then
        fst (tool_case fetch (arguments params)
          ''Invalid arguments for perplexity_reason: 'messages' must be an array''
          ''sonar-reasoning-pro'' sent)
      else Inr \<lparr>content = [\<lparr>item_type = ''text'', item_text = JStr (''Unknown tool: '' @ name params)\<rparr>],
                isError = True\<rparr>)"
  by (simp add: handler_try_def Let_def)

lemma array_messages_truthy: "get_prop args ''messages'' = Inr msgs \<Longrightarrow> isArray msgs \<Longrightarrow> truthy args"
  by (cases args) auto

lemma tool_case_success_D:
  assumes "fst (tool_case fetch args invalid mdl sent) = Inr r"
  shows "\<not> isError r \<and> (\<exists>t. content r = [\<lparr>item_type = ''text'', item_text = t\<rparr>])"
  using assms by (auto simp: tool_case_success_iff)

lemma handler_try_Inr:
  assumes "fst (handler_try fetch params sent) = Inr r"
  shows "(\<exists>t. content r = [\<lparr>item_type = ''text'', item_text = t\<rparr>])
         \<and> (isError r \<longrightarrow>
              r = \<lparr>content = [\<lparr>item_type = ''text'', item_text = JStr (''Unknown tool: '' @ name params)\<rparr>],
                    isError = True\<rparr>)"
  using assms unfolding handler_try_fst
  by (auto split: if_splits dest: tool_case_success_D)

lemma handler_shape:
  "\<exists>t. content (fst (handler fetch params sent)) = [\<lparr>item_type = ''text'', item_text = t\<rparr>]"
proof (cases "fst (handler_try fetch params sent)")
  case (Inl e)
  then show ?thesis by (simp add: handler_tool handler_catch_def)
next
  case (Inr r)
  then show ?thesis using handler_try_Inr [OF Inr] by (simp add: handler_tool)
qed

lemma handler_success_iff:
  "(\<not> isError (fst (handler fetch params sent))
      \<and> map item_text (content (fst (handler fetch params sent))) = [t]) \<longleftrightarrow>
   (\<exists>mdl msgs resp data.
       (name params = ''perplexity_ask'' \<and> mdl = ''sonar-pro''
        \<or> name params = ''perplexity_research'' \<and> mdl = ''sonar-deep-research''
        \<or> name params = ''perplexity_reason'' \<and> mdl = ''sonar-reasoning-pro'')
     \<and> get_prop (arguments params) ''messages'' = Inr msgs \<and> isArray msgs
     \<and> fetch \<lparr>model = mdl, messages = msgs\<rparr> = FetchResponse resp \<and> ok resp
     \<and> json_body resp = Inr data \<and> format_completion data = Inr t)" (is "?L \<longleftrightarrow> ?R")
proof
  assume ?L
  then show ?R
    by (auto simp: handler_tool handler_try_fst handler_catch_def tool_case_success_iff
          perform_success_iff split: sum.splits if_splits)
next
  assume ?R
  then obtain mdl msgs resp data where h:
     "name params = ''perplexity_ask'' \<and> mdl = ''sonar-pro''
        \<or> name params = ''perplexity_research'' \<and> mdl = ''sonar-deep-research''
        \<or> name params = ''perplexity_reason'' \<and> mdl = ''sonar-reasoning-pro''"
     "get_prop (arguments params) ''messages'' = Inr msgs" "isArray msgs"
     "fetch \<lparr>model = mdl, messages = msgs\<rparr> = FetchResponse resp" "ok resp"
     "json_body resp = Inr data" "format_completion data = Inr t"
    by blast
  have tr: "truthy (arguments params)"
    using h(2,3) by (rule array_messages_truthy)
  have p: "fst (performChatCompletion fetch msgs mdl sent) = Inr t"
    using h(4-7) by (auto simp: perform_success_iff)
  have tc: "fst (tool_case fetch (arguments params) invalid mdl sent) =
          Inr \<lparr>content = [\<lparr>item_type = ''text'', item_text = t\<rparr>], isError = False\<rparr>" for invalid
    using h(2,3) p by (simp add: tool_case_success_iff)
  show ?L
    using h(1) tr tc by (auto simp: handler_tool handler_try_fst)
qed

lemma format_completion_unreadable:
  "first_choice_content data = Inl e \<Longrightarrow> format_completion data = Inl e"
  by (simp add: format_completion_def)

lemma no_first_choice:
  assumes "get_prop data ''choices'' = Inr choices"
      and "choices = JUndefined \<or> choices = JNull \<or> choices = JArr []"
  shows "\<exists>e. first_choice_content data = Inl e"
  using assms by (auto simp: first_choice_content_def)

lemma format_completion_string:
  assumes "first_choice_content data = Inr (JStr s)" and "format_completion data = Inr v"
  shows "\<exists>s'. v = JStr s'"
  using assms by (auto simp: format_completion_def split: sum.splits if_splits)

lemma handler_caught:
  assumes "fst (handler_try fetch params sent) = Inl e"
  shows "fst (handler fetch params sent) =
           \<lparr>content = [\<lparr>item_type = ''text'', item_text = JStr (''Error: '' @ message e)\<rparr>],
             isError = True\<rparr>"
  using assms by (simp add: handler_tool handler_catch_def)

lemma handler_error_origin:
  assumes "isError (fst (handler fetch params sent))"
  shows "(\<exists>e. fst (handler_try fetch params sent) = Inl e
              \<and> fst (handler fetch params sent) =
                  \<lparr>content = [\<lparr>item_type = ''text'', item_text = JStr (''Error: '' @ message e)\<rparr>],
                    isError = True\<rparr>)
         \<or> (truthy (arguments params)
              \<and> name params \<notin> {''perplexity_ask'', ''perplexity_research'', ''perplexity_reason''}
              \<and> fst (handler fetch params sent) =
                  \<lparr>content = [\<lparr>item_type = ''text'', item_text = JStr (''Unknown tool: '' @ name params)\<rparr>],
                    isError = True\<rparr>)"
proof (cases "fst (handler_try fetch params sent)")
  case (Inl e)
  then show ?thesis using handler_caught [OF Inl] by blast
next
  case (Inr r)
  then have err: "isError r" using assms by (simp add: handler_tool)
  have "truthy (arguments params)
        \<and> name params \<notin> {''perplexity_ask'', ''perplexity_research'', ''perplexity_reason''}
        \<and> r = \<lparr>content = [\<lparr>item_type = ''text'', item_text = JStr (''Unknown tool: '' @ name params)\<rparr>],
                isError = True\<rparr>"
    using Inr err unfolding handler_try_fst
    by (auto split: if_splits dest: tool_case_success_D)
  then show ?thesis using Inr by (simp add: handler_tool)
qed

text \<open>
  The handler in general.  It always returns a response with exactly one content item, of
  type \<open>text\<close>.  A throw \<open>e\<close> of the \<open>try\<close> block becomes the response with \<open>isError\<close> set
  and the text \<open>Error: <message of e>\<close>; \<open>isError\<close> is set only for such a throw or, with
  arguments present, for an unregistered tool name (text \<open>Unknown tool: <name>\<close>).
  \<open>isError\<close> is clear exactly when the tool is registered, \<open>messages\<close> is an array, the
  upstream answered with a success status and a parsable body, and formatting that body
  did not throw; the text is then the value the upstream client returned.  A reply whose
  \<open>choices\<close> is absent, \<open>null\<close> or empty makes the formatting throw, and a first choice
  whose message content is a string gives a string.
\<close>

lemma handler_responses:
  "(\<exists>t. content (fst (handler fetch params sent)) = [\<lparr>item_type = ''text'', item_text = t\<rparr>])
   \<and> (\<forall>e. fst (handler_try fetch params sent) = Inl e \<longrightarrow>
          fst (handler fetch params sent) =
            \<lparr>content = [\<lparr>item_type = ''text'', item_text = JStr (''Error: '' @ message e)\<rparr>],
              isError = True\<rparr>)
   \<and> (isError (fst (handler fetch params sent)) \<longrightarrow>
        (\<exists>e. fst (handler_try fetch params sent) = Inl e
              \<and> fst (handler fetch params sent) =
                  \<lparr>content = [\<lparr>item_type = ''text'', item_text = JStr (''Error: '' @ message e)\<rparr>],
                    isError = True\<rparr>)
         \<or> (truthy (arguments params)
              \<and> name params \<notin> {''perplexity_ask'', ''perplexity_research'', ''perplexity_reason''}
              \<and> fst (handler fetch params sent) =
                  \<lparr>content = [\<lparr>item_type = ''text'', item_text = JStr (''Unknown tool: '' @ name params)\<rparr>],
                    isError = True\<rparr>))
   \<and> (\<forall>t. (\<not> isError (fst (handler fetch params sent))
             \<and> map item_text (content (fst (handler fetch params sent))) = [t]) \<longleftrightarrow>
            (\<exists>mdl msgs resp data.
                (name params = ''perplexity_ask'' \<and> mdl = ''sonar-pro''
                 \<or> name params = ''perplexity_research'' \<and> mdl = ''sonar-deep-research''
                 \<or> name params = ''perplexity_reason'' \<and> mdl = ''sonar-reasoning-pro'')
              \<and> get_prop (arguments params) ''messages'' = Inr msgs \<and> isArray msgs
              \<and> fetch \<lparr>model = mdl, messages = msgs\<rparr> = FetchResponse resp \<and> ok resp
              \<and> json_body resp = Inr data \<and> format_completion data = Inr t))
   \<and> (\<forall>data choices. get_prop data ''choices'' = Inr choices
          \<and> (choices = JUndefined \<or> choices = JNull \<or> choices = JArr []) \<longrightarrow>
          (\<exists>e. format_completion data = Inl e))
   \<and> (\<forall>data s v. first_choice_content data = Inr (JStr s) \<and> format_completion data = Inr v \<longrightarrow>
          (\<exists>s'. v = JStr s'))"
proof -
  have unreadable: "\<exists>e. format_completion data = Inl e"
    if "get_prop data ''choices'' = Inr choices
          \<and> (choices = JUndefined \<or> choices = JNull \<or> choices = JArr [])" for data choices
  proof -
    from that obtain e where "first_choice_content data = Inl e"
      using no_first_choice by blast
    then show ?thesis by (simp add: format_completion_unreadable)
  qed
  have stringly: "\<exists>s'. v = JStr s'"
    if "first_choice_content data = Inr (JStr s) \<and> format_completion data = Inr v" for data s v
    using that format_completion_string by blast
  show ?thesis
    apply (intro conjI)
         apply (rule handler_shape)
        apply (intro allI impI, erule handler_caught)
       apply (intro impI, erule handler_error_origin)
      apply (intro allI, rule handler_success_iff)
     apply (intro allI impI, erule unreadable)
    apply (intro allI impI, erule stringly)
    done
qed

text \<open>
  C1.  The handler is to turn every failure, a malformed upstream reply included, into a
  response with \<open>isError\<close> set and a string text.  It does so for a reply whose \<open>choices\<close>
  list is empty: the read of \<open>message\<close> throws and the \<open>catch\<close> answers.  It does not for
  a reply whose first choice has a message without \<open>content\<close>: nothing throws,
  \<open>performChatCompletion\<close>, declared to return a string, returns \<open>undefined\<close>, and the
  response has \<open>isError\<close> clear and the text \<open>undefined\<close>.
\<close>

theorem malformed_reply_returned_as_success:
  "handler (reply empty_choices)
           \<lparr>name = ''perplexity_ask'', arguments = JObj [(''messages'', JArr [])]\<rparr> []
   = (\<lparr>content = [\<lparr>item_type = ''text'',
          item_text = JStr ''Error: Cannot read properties of undefined (reading 'message')''\<rparr>],
        isError = True\<rparr>,
      [\<lparr>model = ''sonar-pro'', messages = JArr []\<rparr>])
   \<and> handler (reply message_without_content)
           \<lparr>name = ''perplexity_ask'', arguments = JObj [(''messages'', JArr [])]\<rparr> []
   = (\<lparr>content = [\<lparr>item_type = ''text'', item_text = JUndefined\<rparr>], isError = False\<rparr>,
      [\<lparr>model = ''sonar-pro'', messages = JArr []\<rparr>])"
  by (simp add: handler_def handler_try_def handler_catch_def tool_case_def
        performChatCompletion_def reply_def format_completion_def first_choice_content_def
        empty_choices_def message_without_content_def)

lemma tool_case_invalid:
  assumes "get_prop args ''messages'' = Inr m" and "\<not> isArray m"
  shows "tool_case fetch args invalid mdl sent = (Inl (Error invalid), sent)"
  using assms by (simp add: tool_case_def)

text \<open>
  C3.  For each of the three tools, when the arguments are present and their
  \<open>messages\<close> property is absent (it reads as \<open>undefined\<close>) or is not an array, the
  response has \<open>isError\<close> set, its text names the tool and contains the word \<open>array\<close>,
  and no POST is sent upstream.
\<close>

theorem messages_must_be_array:
  assumes "name params \<in> {''perplexity_ask'', ''perplexity_research'', ''perplexity_reason''}"
      and "truthy (arguments params)"
      and "get_prop (arguments params) ''messages'' = Inr m"
      and "\<not> isArray m"
  shows "handler fetch params sent =
           (\<lparr>content = [\<lparr>item_type = ''text'',
                          item_text = JStr (''Error: Invalid arguments for '' @ name params
                                            @ '': 'messages' must be an array'')\<rparr>],
             isError = True\<rparr>, sent)
         \<and> sublist (name params)
              (''Error: Invalid arguments for '' @ name params @ '': 'messages' must be an array'')
         \<and> sublist ''array''
              (''Error: Invalid arguments for '' @ name params @ '': 'messages' must be an array'')"
proof (intro conjI)
  show "handler fetch params sent =
           (\<lparr>content = [\<lparr>item_type = ''text'',
                          item_text = JStr (''Error: Invalid arguments for '' @ name params
                                            @ '': 'messages' must be an array'')\<rparr>],
             isError = True\<rparr>, sent)"
    using assms
    by (auto simp: handler_def handler_try_def handler_catch_def tool_case_invalid)
next
  show "sublist (name params)
              (''Error: Invalid arguments for '' @ name params @ '': 'messages' must be an array'')"
    by (rule sublist_appendI)
next
  have "(''Error: Invalid arguments for '' @ name params @ '': 'messages' must be an array'')
        = (''Error: Invalid arguments for '' @ name params @ '': 'messages' must be an '') @ ''array'' @ []"
    by simp
  then show "sublist ''array''
              (''Error: Invalid arguments for '' @ name params @ '': 'messages' must be an array'')"
    unfolding sublist_def by blast
qed

theorem messages_must_be_array_witness:
  "handler fetch_fails \<lparr>name = ''perplexity_ask'', arguments = JObj []\<rparr> [] =
     (\<lparr>content = [\<lparr>item_type = ''text'',
          item_text = JStr ''Error: Invalid arguments for perplexity_ask: 'messages' must be an array''\<rparr>],
       isError = True\<rparr>, [])
   \<and> handler fetch_fails
        \<lparr>name = ''perplexity_research'', arguments = JObj [(''messages'', JStr ''hello'')]\<rparr> [] =
     (\<lparr>content = [\<lparr>item_type = ''text'',
          item_text = JStr ''Error: Invalid arguments for perplexity_research: 'messages' must be an array''\<rparr>],
       isError = True\<rparr>, [])"
  using messages_must_be_array
          [of "\<lparr>name = ''perplexity_ask'', arguments = JObj []\<rparr>" JUndefined fetch_fails "[]"]
        messages_must_be_array
          [of "\<lparr>name = ''perplexity_research'', arguments = JObj [(''messages'', JStr ''hello'')]\<rparr>"
              "JStr ''hello''" fetch_fails "[]"]
  by simp

text \<open>
  C4.  When the arguments are present and the tool name is none of the three registered
  names, the \<open>try\<close> block returns (it does not throw) the response with \<open>isError\<close> set
  and the single text item \<open>Unknown tool: <name>\<close>; the handler hands that response on
  unchanged, so its text does not start with \<open>Error: \<close>, and no upstream call is made.
\<close>

theorem unknown_tool_direct_return:
  assumes "truthy (arguments params)"
      and "name params \<noteq> ''perplexity_ask''"
      and "name params \<noteq> ''perplexity_research''"
      and "name params \<noteq> ''perplexity_reason''"
  shows "handler_try fetch params sent =
           (Inr \<lparr>content = [\<lparr>item_type = ''text'', item_text = JStr (''Unknown tool: '' @ name params)\<rparr>],
                 isError = True\<rparr>, sent)
         \<and> handler fetch params sent =
           (\<lparr>content = [\<lparr>item_type = ''text'', item_text = JStr (''Unknown tool: '' @ name params)\<rparr>],
             isError = True\<rparr>, sent)
         \<and> \<not> prefix ''Error: '' (''Unknown tool: '' @ name params)"
  using assms by (simp add: handler_def handler_try_def)

theorem unknown_tool_direct_return_witness:
  "handler fetch_fails \<lparr>name = ''perplexity_search'', arguments = JObj []\<rparr> [] =
     (\<lparr>content = [\<lparr>item_type = ''text'', item_text = JStr ''Unknown tool: perplexity_search''\<rparr>],
       isError = True\<rparr>, [])"
  using unknown_tool_direct_return [of "\<lparr>name = ''perplexity_search'', arguments = JObj []\<rparr>" fetch_fails "[]"]
  by simp

text \<open>
  C5, as the code has it.  When no arguments object is present, the \<open>throw\<close> of
  \<open>No arguments provided\<close> is caught by the handler's own \<open>catch\<close>, so the response
  has \<open>isError\<close> set and the single text item \<open>Error: No arguments provided\<close>; no
  upstream call is made.
\<close>

theorem no_arguments_error:
  assumes "\<not> truthy (arguments params)"
  shows "handler fetch params sent =
           (\<lparr>content = [\<lparr>item_type = ''text'', item_text = JStr ''Error: No arguments provided''\<rparr>],
             isError = True\<rparr>, sent)"
  using assms by (simp add: handler_def handler_try_def handler_catch_def)

theorem no_arguments_error_witness:
  "handler fetch_fails \<lparr>name = ''perplexity_ask'', arguments = JUndefined\<rparr> [] =
           (\<lparr>content = [\<lparr>item_type = ''text'', item_text = JStr ''Error: No arguments provided''\<rparr>],
             isError = True\<rparr>, [])"
  using no_arguments_error [of "\<lparr>name = ''perplexity_ask'', arguments = JUndefined\<rparr>" fetch_fails "[]"]
  by simp

text \<open>For a request without arguments the text of the response is not the bare message
  \<open>No arguments provided\<close>.\<close>

theorem no_arguments_text_counterexample:
  "map item_text (content (fst (handler fetch_fails \<lparr>name = ''perplexity_ask'', arguments = JUndefined\<rparr> [])))
     \<noteq> [JStr ''No arguments provided'']"
  by (simp add: handler_def handler_try_def handler_catch_def)

lemma tool_case_returns_success:
  "tool_case fetch args invalid mdl sent = (Inr r, sent') \<Longrightarrow> \<not> isError r"
  by (auto simp: tool_case_def split: sum.splits if_splits prod.splits)

text \<open>
  C10.  The check for the arguments comes before the routing on the tool name: without
  arguments the response is the no-arguments error whatever the tool name, and not the
  \<open>Unknown tool\<close> response; a response \<open>Unknown tool: X\<close> with \<open>isError\<close> set arises only
  when the arguments are present (and then \<open>X\<close> is the requested, unregistered name).
\<close>

theorem arguments_check_precedes_routing:
  "(\<not> truthy (arguments params) \<longrightarrow>
      fst (handler fetch params sent) =
        \<lparr>content = [\<lparr>item_type = ''text'', item_text = JStr ''Error: No arguments provided''\<rparr>],
          isError = True\<rparr>
      \<and> fst (handler fetch params sent) \<noteq>
        \<lparr>content = [\<lparr>item_type = ''text'', item_text = JStr (''Unknown tool: '' @ name params)\<rparr>],
          isError = True\<rparr>)
   \<and> (\<forall>X. fst (handler fetch params sent) =
          \<lparr>content = [\<lparr>item_type = ''text'', item_text = JStr (''Unknown tool: '' @ X)\<rparr>],
            isError = True\<rparr>
        \<longrightarrow> truthy (arguments params) \<and> X = name params
            \<and> name params \<notin> {''perplexity_ask'', ''perplexity_research'', ''perplexity_reason''})"
proof -
  have caught: "fst (handler fetch params sent) =
        \<lparr>content = [\<lparr>item_type = ''text'', item_text = JStr ''Error: No arguments provided''\<rparr>],
          isError = True\<rparr>" if "\<not> truthy (arguments params)"
    using that by (simp add: handler_def handler_try_def handler_catch_def)
  have differs: "fst (handler fetch params sent) \<noteq>
        \<lparr>content = [\<lparr>item_type = ''text'', item_text = JStr (''Unknown tool: '' @ name params)\<rparr>],
          isError = True\<rparr>" if "\<not> truthy (arguments params)"
    using that by (simp add: handler_def handler_try_def handler_catch_def)
  have only: "truthy (arguments params) \<and> X = name params
            \<and> name params \<notin> {''perplexity_ask'', ''perplexity_research'', ''perplexity_reason''}"
    if "fst (handler fetch params sent) =
          \<lparr>content = [\<lparr>item_type = ''text'', item_text = JStr (''Unknown tool: '' @ X)\<rparr>],
            isError = True\<rparr>" for X
    using that
    by (auto simp: handler_def handler_try_def handler_catch_def Let_def
           split: sum.splits if_splits prod.splits dest: tool_case_returns_success)
  show ?thesis
    using caught differs only by blast
qed

theorem arguments_check_precedes_routing_witness:
  "\<not> truthy JUndefined
   \<and> fst (handler fetch_fails \<lparr>name = ''no_such_tool'', arguments = JUndefined\<rparr> []) =
        \<lparr>content = [\<lparr>item_type = ''text'', item_text = JStr ''Error: No arguments provided''\<rparr>],
          isError = True\<rparr>
   \<and> fst (handler fetch_fails \<lparr>name = ''no_such_tool'', arguments = JUndefined\<rparr> []) \<noteq>
        \<lparr>content = [\<lparr>item_type = ''text'', item_text = JStr ''Unknown tool: no_such_tool''\<rparr>],
          isError = True\<rparr>"
  using arguments_check_precedes_routing
          [of "\<lparr>name = ''no_such_tool'', arguments = JUndefined\<rparr>" fetch_fails "[]"]
  by simp

section \<open>Properties of the streamable-HTTP sessions\<close>

text \<open>
  C7, as the code has it.  A request to \<open>/mcp\<close> whose \<open>mcp-session-id\<close> header is a
  non-empty string that is not a key of the session map is answered with status 404 and
  body \<open>Session not found\<close>; a request without the header, or with an empty one, whose
  method is not \<open>POST\<close> is answered with status 400 and body \<open>Invalid request\<close>.
\<close>

theorem streamable_rejections:
  "(mcp_session_id req = Some sid \<and> sid \<noteq> [] \<and> sid \<notin> dom (streamableSessions st) \<longrightarrow>
      handleStreamable st req = (Responded 404 ''Session not found'', st))
   \<and> ((mcp_session_id req = None \<or> mcp_session_id req = Some []) \<and> req_method req \<noteq> ''POST'' \<longrightarrow>
      handleStreamable st req = (Responded 400 ''Invalid request'', st))"
  by (auto simp: handleStreamable_def Let_def split: option.splits)

theorem streamable_rejections_witness:
  "handleStreamable initial_state \<lparr>req_method = ''POST'', mcp_session_id = Some ''abc''\<rparr>
     = (Responded 404 ''Session not found'', initial_state)
   \<and> handleStreamable initial_state \<lparr>req_method = ''GET'', mcp_session_id = None\<rparr>
     = (Responded 400 ''Invalid request'', initial_state)"
  using streamable_rejections [of "\<lparr>req_method = ''POST'', mcp_session_id = Some ''abc''\<rparr>" "''abc''" initial_state]
        streamable_rejections [of "\<lparr>req_method = ''GET'', mcp_session_id = None\<rparr>" _ initial_state]
  by (simp add: initial_state_def)

text \<open>A \<open>GET\<close> whose \<open>mcp-session-id\<close> header is the empty string: the value is not a
  key of the map, and the answer is 400, not 404.\<close>

theorem streamable_rejections_counterexample:
  "'''' \<notin> dom (streamableSessions initial_state)
   \<and> fst (handleStreamable initial_state \<lparr>req_method = ''GET'', mcp_session_id = Some ''''\<rparr>)
       = Responded 400 ''Invalid request''"
  by (simp add: handleStreamable_def initial_state_def)

lemma handleStreamable_sessions:
  "streamableSessions (snd (handleStreamable st req)) = streamableSessions st"
  by (auto simp: handleStreamable_def Let_def split: option.splits)

lemma step_inserts_only:
  assumes "sid \<notin> dom (streamableSessions st)" and "sid \<in> dom (streamableSessions (step st ev))"
  shows "\<exists>t. ev = SessionInitialized t sid"
proof (cases ev)
  case (Request req)
  then show ?thesis using assms by (simp add: handleStreamable_sessions)
next
  case (SessionInitialized t sid')
  then show ?thesis using assms
    by (auto simp: onsessioninitialized_def split: option.splits if_splits)
next
  case (Closed t tsid)
  then show ?thesis using assms
    by (auto simp: onclose_def split: option.splits if_splits)
qed

lemma step_changes_only:
  assumes "streamableSessions (step st ev) sid \<noteq> streamableSessions st sid"
  shows "(\<exists>t. ev = SessionInitialized t sid) \<or> (\<exists>t. ev = Closed t (Some sid))"
proof (cases ev)
  case (Request req)
  then show ?thesis using assms by (simp add: handleStreamable_sessions)
next
  case (SessionInitialized t sid')
  then show ?thesis using assms
    by (auto simp: onsessioninitialized_def split: option.splits if_splits)
next
  case (Closed t tsid)
  then show ?thesis using assms
    by (auto simp: onclose_def split: option.splits if_splits)
qed

lemma run_inserts_only:
  "sid \<in> dom (streamableSessions (run st evs)) \<Longrightarrow>
   sid \<in> dom (streamableSessions st) \<or> (\<exists>t. SessionInitialized t sid \<in> set evs)"
proof (induction evs arbitrary: st)
  case Nil
  then show ?case by simp
next
  case (Cons ev evs)
  from Cons.IH [of "step st ev"] Cons.prems
  have "sid \<in> dom (streamableSessions (step st ev)) \<or> (\<exists>t. SessionInitialized t sid \<in> set evs)"
    by simp
  then show ?case
  proof
    assume in_step: "sid \<in> dom (streamableSessions (step st ev))"
    show ?thesis
    proof (cases "sid \<in> dom (streamableSessions st)")
      case True
      then show ?thesis by simp
    next
      case False
      from step_inserts_only [OF False in_step] show ?thesis by auto
    qed
  next
    assume "\<exists>t. SessionInitialized t sid \<in> set evs"
    then show ?thesis by auto
  qed
qed

text \<open>
  C8.  Handling a request never changes the session map.  The \<open>onsessioninitialized\<close>
  callback of a transport stores that transport and its server under the id it is called
  with; the \<open>onclose\<close> callback removes the entry of the transport's session id.  A step
  that brings a new key into the map is the \<open>onsessioninitialized\<close> callback for that key,
  and a step that changes what the map holds at a key is one of the two callbacks for that
  key.  So after any sequence of events from the initial state every stored id has had its
  callback fired: a session whose handshake never completes is never stored.
\<close>

theorem session_map_invariant:
  "streamableSessions (step st (Request req)) = streamableSessions st
   \<and> (map_of (callbacks st) t = Some srv \<longrightarrow>
        streamableSessions (step st (SessionInitialized t sid)) =
          (streamableSessions st)(sid \<mapsto> \<lparr>transport = t, server = srv\<rparr>))
   \<and> (map_of (callbacks st) t = Some srv \<and> sid \<noteq> [] \<longrightarrow>
        streamableSessions (step st (Closed t (Some sid))) = (streamableSessions st)(sid := None))
   \<and> (sid \<notin> dom (streamableSessions st) \<and> sid \<in> dom (streamableSessions (step st ev)) \<longrightarrow>
        (\<exists>t'. ev = SessionInitialized t' sid))
   \<and> (streamableSessions (step st ev) sid \<noteq> streamableSessions st sid \<longrightarrow>
        (\<exists>t'. ev = SessionInitialized t' sid) \<or> (\<exists>t'. ev = Closed t' (Some sid)))
   \<and> (sid \<in> dom (streamableSessions (run initial_state evs)) \<longrightarrow>
        (\<exists>t'. SessionInitialized t' sid \<in> set evs))"
proof -
  have a: "streamableSessions (step st (Request req)) = streamableSessions st"
    by (simp add: handleStreamable_sessions)
  have b: "streamableSessions (step st (SessionInitialized t sid)) =
          (streamableSessions st)(sid \<mapsto> \<lparr>transport = t, server = srv\<rparr>)"
    if "map_of (callbacks st) t = Some srv"
    using that by (simp add: onsessioninitialized_def)
  have c: "streamableSessions (step st (Closed t (Some sid))) = (streamableSessions st)(sid := None)"
    if "map_of (callbacks st) t = Some srv \<and> sid \<noteq> []"
    using that by (simp add: onclose_def)
  have d: "\<exists>t'. ev = SessionInitialized t' sid"
    if "sid \<notin> dom (streamableSessions st) \<and> sid \<in> dom (streamableSessions (step st ev))"
    using that step_inserts_only by blast
  have e: "\<exists>t'. SessionInitialized t' sid \<in> set evs"
    if "sid \<in> dom (streamableSessions (run initial_state evs))"
    using run_inserts_only [OF that] by (simp add: initial_state_def)
  have f: "(\<exists>t'. ev = SessionInitialized t' sid) \<or> (\<exists>t'. ev = Closed t' (Some sid))"
    if "streamableSessions (step st ev) sid \<noteq> streamableSessions st sid"
    using that by (rule step_changes_only)
  show ?thesis
    using a b c d e f by blast
qed

theorem session_map_invariant_witness:
  "streamableSessions (run initial_state handshake) ''s1'' = Some \<lparr>transport = 1, server = 0\<rparr>
   \<and> streamableSessions (step (run initial_state handshake) (Closed 1 (Some ''s1''))) ''s1'' = None
   \<and> (\<exists>t'. SessionInitialized t' ''s1'' \<in> set handshake)"
proof -
  let ?st1 = "step initial_state (Request \<lparr>req_method = ''POST'', mcp_session_id = None\<rparr>)"
  let ?st2 = "run initial_state handshake"
  have cb1: "map_of (callbacks ?st1) 1 = Some 0"
    by (simp add: handleStreamable_def initial_state_def)
  have run2: "?st2 = step ?st1 (SessionInitialized 1 ''s1'')"
    by (simp add: handshake_def)
  have cb2: "map_of (callbacks ?st2) 1 = Some 0 \<and> ''s1'' \<noteq> []"
    by (simp add: handshake_def handleStreamable_def initial_state_def onsessioninitialized_def)
  from session_map_invariant [of ?st1 _ 1 0 "''s1''"] cb1
  have stored: "streamableSessions ?st2 ''s1'' = Some \<lparr>transport = 1, server = 0\<rparr>"
    unfolding run2 by simp
  from session_map_invariant [of ?st2 _ 1 0 "''s1''"] cb2
  have removed: "streamableSessions (step ?st2 (Closed 1 (Some ''s1''))) ''s1'' = None"
    by simp
  from stored have "''s1'' \<in> dom (streamableSessions ?st2)"
    by (simp add: domI)
  with session_map_invariant [of initial_state _ _ _ "''s1''" _ handshake]
  have "\<exists>t'. SessionInitialized t' ''s1'' \<in> set handshake"
    by blast
  with stored removed show ?thesis
    by (intro conjI)
qed

section \<open>Properties of the process entry point\<close>

lemma parseArgs_js_loop_no_port:
  "''--port'' \<notin> set args \<Longrightarrow> parseArgs_js_loop parseInt args opts = opts"
  by (induction parseInt args opts rule: parseArgs_js_loop.induct) auto

lemma parseArgs_ts_loop_no_flag:
  "''--port'' \<notin> set args \<Longrightarrow> ''--stdio'' \<notin> set args \<Longrightarrow> parseArgs_ts_loop parseInt args opts = opts"
  by (induction parseInt args opts rule: parseArgs_ts_loop.induct) auto

lemma parseArgs_js_loop_stdio:
  "stdio (parseArgs_js_loop parseInt args opts) = stdio opts"
  by (induction parseInt args opts rule: parseArgs_js_loop.induct) auto

text \<open>
  C9.  The two variants of the entry point differ: on an argument list with neither
  \<open>--port\<close> nor \<open>--stdio\<close> the first variant's \<open>runServer\<close> selects the stdio transport and
  the second variant's starts the HTTP server on port 8080.  The first variant's
  \<open>parseArgs\<close> never sets \<open>stdio\<close>; the second variant's sets it on \<open>--stdio\<close>, and its
  \<open>runServer\<close> then selects the stdio transport.
\<close>

theorem entry_points_differ:
  "(''--port'' \<notin> set args \<and> ''--stdio'' \<notin> set args \<longrightarrow>
      runServer_js parseInt args = StdioMode
      \<and> runServer_ts parseInt args = HttpMode (JNum ''8080'')
      \<and> runServer_js parseInt args \<noteq> runServer_ts parseInt args)
   \<and> stdio (parseArgs_js parseInt args) = None
   \<and> stdio (parseArgs_ts parseInt [''--stdio'']) = Some True
   \<and> runServer_ts parseInt [''--stdio''] = StdioMode"
  by (auto simp: runServer_js_def runServer_ts_def parseArgs_js_def parseArgs_ts_def
        parseArgs_js_loop_no_port parseArgs_ts_loop_no_flag parseArgs_js_loop_stdio)

theorem entry_points_differ_witness:
  "runServer_js (\<lambda>s. JNum s) [''--verbose''] = StdioMode
   \<and> runServer_ts (\<lambda>s. JNum s) [''--verbose''] = HttpMode (JNum ''8080'')"
  using entry_points_differ [of "[''--verbose'']" "\<lambda>s. JNum s"]
  by simp

end
